theory Spec2Isabelle
  imports Complex_Main
begin

section \<open>Python values, exceptions and observable effects\<close>

text \<open>
  The two source files are Python. Every exception the modelled code can raise is a
  value of \<open>py_error\<close>; a call returns \<open>Inl e\<close> when it raises \<open>e\<close> and \<open>Inr v\<close> when it
  returns \<open>v\<close>. The exceptions of the libraries the code calls are named after the
  Python class that is raised.
\<close>

datatype py_error =
    IndexError
  | KeyError
  | TypeError
  | AttributeError
  | JSONDecodeError
  | RequestException
  | UnboundLocalError

text \<open>
  What \<open>response.json()\<close> returns: \<open>JNull\<close> is Python's \<open>None\<close>, \<open>JObj\<close> a parsed
  \<open>dict\<close> (string keys, each key once) and \<open>JArr\<close> a \<open>list\<close>.
\<close>

datatype json =
    JNull
  | JBool bool
  | JNum rat
  | JStr string
  | JArr "json list"
  | JObj "(string \<times> json) list"

text \<open>The calls to collaborators and the console output, in the order they happen.\<close>

datatype event =
    Print string
  | LogError string
  | HttpGet string
  | Encode "string list"
  | Ner string
  | Listen
  | Speak string

datatype key = KInt int | KStr string

text \<open>Python's \<open>xs[i]\<close> on a sequence: a negative index counts from the end.\<close>

definition seq_getitem :: "'a list \<Rightarrow> int \<Rightarrow> py_error + 'a" where
  "seq_getitem xs i =
     (if 0 \<le> i \<and> i < int (length xs) then Inr (xs ! nat i)
      else if i < 0 \<and> - int (length xs) \<le> i then Inr (xs ! nat (int (length xs) + i))
      else Inl IndexError)"

text \<open>
  Python's \<open>v[k]\<close> on a value parsed from JSON. A \<open>dict\<close> raises \<open>KeyError\<close> on a key
  it does not hold (an integer is never a key of a parsed object), a \<open>list\<close> or \<open>str\<close>
  raises \<open>IndexError\<close> out of range and \<open>TypeError\<close> on a string index, and \<open>None\<close>,
  booleans and numbers are not subscriptable.
\<close>

fun subscript :: "json \<Rightarrow> key \<Rightarrow> py_error + json" where
  "subscript (JObj d) (KStr k) = (case map_of d k of None \<Rightarrow> Inl KeyError | Some v \<Rightarrow> Inr v)"
| "subscript (JObj d) (KInt i) = Inl KeyError"
| "subscript (JArr xs) (KInt i) = seq_getitem xs i"
| "subscript (JArr xs) (KStr k) = Inl TypeError"
| "subscript (JStr s) (KInt i) =
     (case seq_getitem s i of Inl e \<Rightarrow> Inl e | Inr c \<Rightarrow> Inr (JStr [c]))"
| "subscript (JStr s) (KStr k) = Inl TypeError"
| "subscript JNull k = Inl TypeError"
| "subscript (JBool b) k = Inl TypeError"
| "subscript (JNum n) k = Inl TypeError"

text \<open>Decimal text of an integer, as an f-string prints it.\<close>

function str_nat :: "nat \<Rightarrow> string" where
  "str_nat n =
     (if n < 10 then [char_of (48 + n)]
      else str_nat (n div 10) @ [char_of (48 + n mod 10)])"
  by pat_completeness auto
termination
  by (relation "measure id") auto

declare str_nat.simps [simp del]

definition str_int :: "int \<Rightarrow> string" where
  "str_int i = (if i < 0 then CHR ''-'' # str_nat (nat (- i)) else str_nat (nat i))"

section \<open>weather\_adapter.py\<close>

record weather_adapter =
  api_key :: string
  base_url :: string

text \<open>\<open>WeatherAdapter.__init__\<close> (lines 20 to 22).\<close>

definition WeatherAdapter_init :: "string \<Rightarrow> weather_adapter" where
  "WeatherAdapter_init k =
     \<lparr>api_key = k, base_url = ''http://api.openweathermap.org/data/2.5/weather''\<rparr>"

text \<open>
  What \<open>requests.get\<close> does with a URL: it raises (no connection, timeout, ...), or it
  returns a response with a status code and a body; the body is \<open>None\<close> when it is not
  JSON, so that \<open>response.json()\<close> raises.
\<close>

datatype http_outcome = NoResponse | Response int "json option"

text \<open>Line 49: the URL is built by plain interpolation, nothing is escaped.\<close>

definition api_url :: "weather_adapter \<Rightarrow> string \<Rightarrow> string" where
  "api_url a city_name = base_url a @ ''?q='' @ city_name @ ''&appid='' @ api_key a"

text \<open>Line 53: \<open>response_dict["weather"][0]["description"]\<close>, evaluated left to right.\<close>

definition description_of :: "json \<Rightarrow> py_error + json" where
  "description_of response_dict =
     (case subscript response_dict (KStr ''weather'') of
        Inl e \<Rightarrow> Inl e
      | Inr w \<Rightarrow>
          (case subscript w (KInt 0) of
             Inl e \<Rightarrow> Inl e
           | Inr first \<Rightarrow> subscript first (KStr ''description'')))"

text \<open>
  \<open>WeatherAdapter.get_weather\<close> (lines 37 to 57). The backend is the parameter
  \<open>requests_get\<close>. The result is the value returned or the exception raised, the
  adapter after the call, and the effects: the request, and the diagnostic of line 56.
  The method has no \<open>try\<close>: whatever \<open>requests.get\<close>, \<open>response.json()\<close> or the
  subscripts raise leaves the method as it is.
\<close>

definition WeatherAdapter_get_weather ::
  "(string \<Rightarrow> http_outcome) \<Rightarrow> weather_adapter \<Rightarrow> string
     \<Rightarrow> (py_error + json) \<times> weather_adapter \<times> event list" where
  "WeatherAdapter_get_weather requests_get a city_name =
     (case requests_get (api_url a city_name) of
        NoResponse \<Rightarrow> (Inl RequestException, a, [HttpGet (api_url a city_name)])
      | Response status_code body \<Rightarrow>
          if status_code = 200 then
            (case body of
               None \<Rightarrow> (Inl JSONDecodeError, a, [HttpGet (api_url a city_name)])
             | Some response_dict \<Rightarrow>
                 (description_of response_dict, a, [HttpGet (api_url a city_name)]))
          else
            (Inr JNull, a,
             [HttpGet (api_url a city_name),
              Print (''[!] HTTP '' @ str_int status_code @ '' calling ['' @
                     api_url a city_name @ '']'')]))"

text \<open>The three parts of what a call gives back.\<close>

definition returned :: "'r \<times> 's \<times> event list \<Rightarrow> 'r" where
  "returned c = fst c"

definition state_after :: "'r \<times> 's \<times> event list \<Rightarrow> 's" where
  "state_after c = fst (snd c)"

definition effects :: "'r \<times> 's \<times> event list \<Rightarrow> event list" where
  "effects c = snd (snd c)"

text \<open>The URLs a call has requested, in order.\<close>

fun requests_made :: "event list \<Rightarrow> string list" where
  "requests_made [] = []"
| "requests_made (HttpGet u # evs) = u # requests_made evs"
| "requests_made (e # evs) = requests_made evs"

text \<open>A backend that gives the same outcome whatever the URL.\<close>

definition replying :: "http_outcome \<Rightarrow> string \<Rightarrow> http_outcome" where
  "replying r u = r"

text \<open>
  How the query of a URL is read as parameters: the query is what stands between the
  first \<open>?\<close> and the first \<open>#\<close> after it, \<open>&\<close> separates the parameters, and the first
  \<open>=\<close> of a parameter separates its name from its value.
\<close>

fun split_on :: "char \<Rightarrow> string \<Rightarrow> string list" where
  "split_on sep [] = [[]]"
| "split_on sep (ch # rest) =
     (if ch = sep then [] # split_on sep rest
      else (case split_on sep rest of [] \<Rightarrow> [[ch]] | w # ws \<Rightarrow> (ch # w) # ws))"

definition query_string :: "string \<Rightarrow> string" where
  "query_string url =
     takeWhile (\<lambda>ch. ch \<noteq> CHR ''#'') (drop 1 (dropWhile (\<lambda>ch. ch \<noteq> CHR ''?'') url))"

definition name_and_value :: "string \<Rightarrow> string \<times> string" where
  "name_and_value kv =
     (takeWhile (\<lambda>ch. ch \<noteq> CHR ''='') kv, drop 1 (dropWhile (\<lambda>ch. ch \<noteq> CHR ''='') kv))"

definition query_params :: "string \<Rightarrow> (string \<times> string) list" where
  "query_params url = map name_and_value (split_on CHR ''&'' (query_string url))"

section \<open>chatbot.py\<close>

subsection \<open>Collaborators and the state of a ChatBot\<close>

text \<open>An entity of a spaCy document: \<open>ent.text\<close> and \<open>ent.label_\<close>.\<close>

record entity =
  ent_text :: string
  label :: string

text \<open>
  The libraries the class calls, as parameters. \<open>similarity_model\<close> is the embedding of
  one sentence: \<open>encode\<close> on a list gives one row per sentence, in order.
  \<open>pytorch_cos_sim\<close> is the score of two rows, \<open>city_identifier\<close> the entities spaCy
  finds in a text (\<open>statement.ents\<close>), \<open>backend\<close> what \<open>requests.get\<close> does, \<open>clock\<close>
  what \<open>datetime.datetime.now().strftime('%H:%M')\<close> gives, and \<open>py_str\<close> Python's
  \<open>str\<close> on a payload value that is not a string.
\<close>

record 'e collaborators =
  similarity_model :: "string \<Rightarrow> 'e"
  pytorch_cos_sim :: "'e \<Rightarrow> 'e \<Rightarrow> real"
  city_identifier :: "string \<Rightarrow> entity list"
  backend :: "string \<Rightarrow> http_outcome"
  clock :: string
  py_str :: "json \<Rightarrow> string"

text \<open>
  The attributes of a ChatBot that the methods read and write. \<open>text'\<close> is \<open>self.text\<close>.
  \<open>expected_inputs\<close> is the dict of lines 47 to 53 in insertion order: each phrase with
  the string stored for it. \<open>weather\<close> is \<open>None\<close> while the attribute does not exist.
\<close>

record chatbot =
  name :: string
  text' :: string
  exit_flag :: bool
  expected_inputs :: "(string \<times> string) list"
  weather :: "weather_adapter option"

text \<open>\<open>np.random.choice\<close> on a list, \<open>r\<close> being the generator's draw.\<close>

definition random_choice :: "nat \<Rightarrow> 'a list \<Rightarrow> 'a" where
  "random_choice r xs = xs ! (r mod length xs)"

subsection \<open>The actions\<close>

text \<open>
  Every method takes the object and gives back what it returns or raises, the object
  after the call, and its effects.
\<close>

definition wake_up :: "string \<Rightarrow> chatbot \<Rightarrow> (py_error + string) \<times> chatbot \<times> event list" where
  "wake_up txt s =
     (Inr (''Hello I am '' @ name s @
           '' your AI assistant. Please ask for one thing at a time, I'm not all that smart. What can I do for you?''),
      s, [])"

definition farewells :: "string list" where
  "farewells =
     [''Cheerio'', ''Ta-ta'', ''Pip-Pip'', ''Take care, old chap'', ''Until next time'',
      ''Ok, off you pop'']"

definition sleep :: "nat \<Rightarrow> string \<Rightarrow> chatbot \<Rightarrow> (py_error + string) \<times> chatbot \<times> event list" where
  "sleep r txt s = (Inr (random_choice r farewells), s\<lparr>exit_flag := True\<rparr>, [])"

definition thanks :: "string list" where
  "thanks =
     [''You're welcome!'', ''Anytime!'', ''No problem!'', ''Cheers!'', ''All good!'',
      ''No worries!'', ''Don't mention it!'', ''It's nothing!'', ''My pleasure!'',
      ''Happy to help!'']"

definition thank_you :: "nat \<Rightarrow> chatbot \<Rightarrow> (py_error + string) \<times> chatbot \<times> event list" where
  "thank_you r s = (Inr (random_choice r thanks), s, [])"

definition get_time :: "'e collaborators \<Rightarrow> chatbot \<Rightarrow> (py_error + string) \<times> chatbot \<times> event list" where
  "get_time c s = (Inr (clock c), s, [])"

text \<open>Lines 229 to 233: the first entity labelled GPE, \<open>None\<close> when there is none.\<close>

fun first_gpe :: "entity list \<Rightarrow> string option" where
  "first_gpe [] = None"
| "first_gpe (ent # ents) = (if label ent = ''GPE'' then Some (ent_text ent) else first_gpe ents)"

definition specify_a_city :: string where
  "specify_a_city = ''I say, old chap, one must specify a city to inquire about the weather.''"

definition no_weather :: string where
  "no_weather =
     ''My apologies, but I regret to inform you that I was unable to procure the weather information for your request.''"

definition weather_report :: "'e collaborators \<Rightarrow> string \<Rightarrow> json \<Rightarrow> string" where
  "weather_report c city city_weather =
     ''Ah, in '' @ city @ '', one observes the weather to be '' @
     (case city_weather of JStr d \<Rightarrow> d | v \<Rightarrow> py_str c v) @
     ''. Quite intriguing, wouldn't you agree?''"

text \<open>
  \<open>ChatBot.get_weather\<close> (lines 227 to 242). \<open>if city:\<close> is false for \<open>None\<close> and for
  the empty string. \<open>self.weather\<close> raises \<open>AttributeError\<close> while the attribute does
  not exist, and an exception of the adapter is not caught here either.
\<close>

definition ChatBot_get_weather ::
  "'e collaborators \<Rightarrow> chatbot \<Rightarrow> (py_error + string) \<times> chatbot \<times> event list" where
  "ChatBot_get_weather c s =
     (case first_gpe (city_identifier c (text' s)) of
        None \<Rightarrow> (Inr specify_a_city, s, [Ner (text' s)])
      | Some city \<Rightarrow>
          if city = [] then (Inr specify_a_city, s, [Ner (text' s)])
          else
            (case weather s of
               None \<Rightarrow> (Inl AttributeError, s, [Ner (text' s)])
             | Some a \<Rightarrow>
                 (case WeatherAdapter_get_weather (backend c) a city of
                    (Inl e, a', evs) \<Rightarrow> (Inl e, s\<lparr>weather := Some a'\<rparr>, Ner (text' s) # evs)
                  | (Inr city_weather, a', evs) \<Rightarrow>
                      if city_weather = JNull
                      then (Inr no_weather, s\<lparr>weather := Some a'\<rparr>, Ner (text' s) # evs)
                      else (Inr (weather_report c city city_weather),
                            s\<lparr>weather := Some a'\<rparr>, Ner (text' s) # evs))))"

subsection \<open>Dispatch: handle\_conversation\<close>

text \<open>
  What stands between the brackets of a subscript in \<open>handle_conversation\<close>: a Python
  integer, or a row of the embedding tensor.
\<close>

datatype 'e index = IntIdx int | TensorIdx 'e

text \<open>
  \<open>tensor[i]\<close> on the tensor \<open>encode\<close> returns, whose rows are floating-point vectors.
  An integer selects a row. A tensor of floats is no index: PyTorch raises \<open>IndexError\<close>
  (tensors used as indices must be long, int, byte or bool tensors).
\<close>

definition tensor_getitem :: "'e list \<Rightarrow> 'e index \<Rightarrow> py_error + 'e" where
  "tensor_getitem rows i =
     (case i of IntIdx k \<Rightarrow> seq_getitem rows k | TensorIdx t \<Rightarrow> Inl IndexError)"

text \<open>\<open>xs[i]\<close> on a Python list: a tensor of floats is refused with \<open>TypeError\<close>.\<close>

definition list_getitem :: "'a list \<Rightarrow> 'e index \<Rightarrow> py_error + 'a" where
  "list_getitem xs i =
     (case i of IntIdx k \<Rightarrow> seq_getitem xs k | TensorIdx t \<Rightarrow> Inl TypeError)"

text \<open>\<open>d[k]\<close> on a dict in insertion order; \<open>None\<close> is a key no dict of strings holds.\<close>

definition dict_getitem :: "(string \<times> 'v) list \<Rightarrow> string option \<Rightarrow> py_error + 'v" where
  "dict_getitem d k =
     (case k of
        None \<Rightarrow> Inl KeyError
      | Some phrase \<Rightarrow> (case map_of d phrase of None \<Rightarrow> Inl KeyError | Some v \<Rightarrow> Inr v))"

text \<open>
  The \<open>for\<close> loop of lines 275 to 278 over the values \<open>is\<close> of the loop variable, with
  the running \<open>max_similarity\<close> and \<open>best_match\<close>. Line 276 evaluates
  \<open>expected_input_embeddings[0]\<close>, then \<open>expected_input_embeddings[i]\<close>, then the score.
\<close>

fun match_loop ::
  "'e collaborators \<Rightarrow> 'e list \<Rightarrow> string list \<Rightarrow> 'e index list \<Rightarrow> real \<times> string option
     \<Rightarrow> py_error + real \<times> string option" where
  "match_loop c embeddings phrases [] best = Inr best"
| "match_loop c embeddings phrases (i # is) (max_similarity, best_match) =
     (case tensor_getitem embeddings (IntIdx 0) of
        Inl e \<Rightarrow> Inl e
      | Inr row0 \<Rightarrow>
          (case tensor_getitem embeddings i of
             Inl e \<Rightarrow> Inl e
           | Inr row \<Rightarrow>
               if pytorch_cos_sim c row0 row > max_similarity then
                 (case list_getitem phrases i of
                    Inl e \<Rightarrow> Inl e
                  | Inr phrase \<Rightarrow>
                      match_loop c embeddings phrases is (pytorch_cos_sim c row0 row, Some phrase))
               else match_loop c embeddings phrases is (max_similarity, best_match)))"

text \<open>Line 272.\<close>

definition expected_input_list :: "chatbot \<Rightarrow> string list" where
  "expected_input_list s = text' s # map fst (expected_inputs s)"

text \<open>
  Lines 284 and 285: \<open>res[res.find("bot >> ") + 6:].strip()\<close>. \<open>find\<close> gives the index of
  the first occurrence, or \<open>-1\<close>, so that without the marker the slice starts at 5.
\<close>

fun find_str :: "string \<Rightarrow> string \<Rightarrow> int" where
  "find_str [] sub = (if sub = [] then 0 else - 1)"
| "find_str (ch # res) sub =
     (if take (length sub) (ch # res) = sub then 0
      else (case find_str res sub of k \<Rightarrow> if k < 0 then - 1 else k + 1))"

text \<open>
  The characters \<open>str.strip()\<close> removes, among the code points below 256 that a \<open>char\<close>
  can hold: the ASCII white space, the separators U+001C to U+001F, U+0085 and U+00A0.
\<close>

definition is_space :: "char \<Rightarrow> bool" where
  "is_space ch =
     (ch \<in> set [CHR '' '', CHR 0x09, CHR 0x0A, CHR 0x0B, CHR 0x0C, CHR 0x0D,
                 CHR 0x1C, CHR 0x1D, CHR 0x1E, CHR 0x1F, CHR 0x85, CHR 0xA0])"

definition strip :: "string \<Rightarrow> string" where
  "strip res = rev (dropWhile is_space (rev (dropWhile is_space res)))"

definition reply_of :: "string \<Rightarrow> string" where
  "reply_of res = strip (drop (nat (find_str res ''bot >> '' + 6)) res)"

text \<open>
  \<open>handle_conversation\<close> (lines 267 to 285). The loop variable of line 275 runs over
  the rows of \<open>expected_input_embeddings[1:]\<close>, not over their positions. Line 281
  returns the string the dict holds; no method is called. Line 283 reads \<open>self.nlp\<close>,
  an attribute the class never sets (the pipeline is \<open>self.chat\<close>), so it raises
  \<open>AttributeError\<close> and lines 284 and 285 are not reached.
\<close>

definition handle_conversation ::
  "'e collaborators \<Rightarrow> chatbot \<Rightarrow> (py_error + string) \<times> chatbot \<times> event list" where
  "handle_conversation c s =
     (if text' s = ''ERROR'' then (Inr ''Sorry, come again?'', s, [])
      else
        (case match_loop c (map (similarity_model c) (expected_input_list s))
                (expected_input_list s)
                (map TensorIdx (drop 1 (map (similarity_model c) (expected_input_list s))))
                (- 1, None) of
           Inl e \<Rightarrow> (Inl e, s, [Encode (expected_input_list s)])
         | Inr (max_similarity, best_match) \<Rightarrow>
             if max_similarity > 7 / 10
             then (dict_getitem (expected_inputs s) best_match, s, [Encode (expected_input_list s)])
             else (Inl AttributeError, s, [Encode (expected_input_list s)])))"

subsection \<open>The loop on integer positions\<close>

text \<open>
  The score of a phrase against the captured text, and the integer positions \<open>i\<close> to
  \<open>j - 1\<close> as loop values. \<open>handle_conversation\<close> never passes integers to its loop; the
  lemmas below say what the body of the loop computes when it is given them.
\<close>

definition score_of :: "'e collaborators \<Rightarrow> string \<Rightarrow> string \<Rightarrow> real" where
  "score_of c t p = pytorch_cos_sim c (similarity_model c t) (similarity_model c p)"

definition positions :: "nat \<Rightarrow> nat \<Rightarrow> 'e index list" where
  "positions i j = map (\<lambda>k. IntIdx (int k)) [i..<j]"

text \<open>
  From the spec (4.1, steps 3 and 4, and the edge policy): the running maximum over
  the phrases in table order, replaced only by a strictly greater score.
\<close>

fun spec_running_max ::
  "(string \<Rightarrow> real) \<Rightarrow> string list \<Rightarrow> real \<times> string option \<Rightarrow> real \<times> string option" where
  "spec_running_max score [] best = best"
| "spec_running_max score (p # ps) (m, b) =
     (if score p > m then spec_running_max score ps (score p, Some p)
      else spec_running_max score ps (m, b))"

subsection \<open>Speech in, speech out, and the run loop\<close>

text \<open>
  What the \<open>try\<close> block of \<open>speech_to_text\<close> (lines 77 to 82) does: it recognises a
  text, or one of the three handlers runs. \<open>Crashed listening e\<close> is any other exception
  \<open>e\<close>, raised before (\<open>listening = False\<close>) or after the microphone was opened.
\<close>

datatype heard =
    Recognized string
  | UnknownValueError
  | RequestError string
  | Crashed bool string

definition speech_to_text :: "heard \<Rightarrow> chatbot \<Rightarrow> chatbot \<times> event list" where
  "speech_to_text h s =
     (case h of
        Recognized t \<Rightarrow>
          (s\<lparr>text' := t\<rparr>, [Print ''Listening...'', Listen, Print (''Me  >>>  '' @ t)])
      | UnknownValueError \<Rightarrow>
          (s\<lparr>text' := ''ERROR''\<rparr>,
           [Print ''Listening...'', Listen,
            LogError ''Google Speech Recognition could not understand audio''])
      | RequestError e \<Rightarrow>
          (s\<lparr>text' := ''ERROR''\<rparr>,
           [Print ''Listening...'', Listen,
            LogError (''Could not request results from Google Speech Recognition service; '' @ e)])
      | Crashed listening e \<Rightarrow>
          (s\<lparr>text' := ''ERROR''\<rparr>,
           (if listening then [Print ''Listening...'', Listen] else []) @
           [LogError (''An error occurred: '' @ e)]))"

text \<open>
  What the \<open>try\<close> block of \<open>text_to_speech\<close> (lines 115 to 134) does: the audio plays,
  or an exception \<open>e\<close> is caught and printed. When the temporary file itself could not
  be made, \<open>fp\<close> is unbound and the \<open>finally\<close> block raises at \<open>fp.name\<close>. The optional
  string is the \<open>OSError\<close> of \<open>os.remove\<close>, when it fails.
\<close>

datatype playback =
    Played "string option"
  | SynthesisFailed string "string option"
  | NoTempFile string

definition removal :: "string option \<Rightarrow> event list" where
  "removal r =
     (case r of None \<Rightarrow> [] | Some e \<Rightarrow> [Print (''Error removing temporary audio file: '' @ e)])"

definition text_to_speech ::
  "playback \<Rightarrow> string \<Rightarrow> chatbot \<Rightarrow> (py_error + unit) \<times> chatbot \<times> event list" where
  "text_to_speech p t s =
     (case p of
        Played r \<Rightarrow> (Inr (), s, [Print (name s @ '' -->  '' @ t), Speak t] @ removal r)
      | SynthesisFailed e r \<Rightarrow>
          (Inr (), s,
           [Print (name s @ '' -->  '' @ t),
            Print (''An error occurred during text-to-speech conversion: '' @ e)] @ removal r)
      | NoTempFile e \<Rightarrow>
          (Inl UnboundLocalError, s,
           [Print (name s @ '' -->  '' @ t),
            Print (''An error occurred during text-to-speech conversion: '' @ e)]))"

definition closing_notice :: "chatbot \<Rightarrow> event" where
  "closing_notice s = Print (''<<<< Closing down '' @ name s @ '' >>>>'')"

text \<open>
  Lines 308 to 312: the \<open>while\<close> loop and the notice after it. \<open>mic k\<close> and \<open>speaker k\<close>
  are what listening and speaking do in iteration \<open>k\<close>; \<open>sofar\<close> is what has happened so
  far. The loop may run for ever: \<open>fuel\<close> bounds the iterations, and \<open>None\<close> says that
  the fuel did not suffice. An exception of the body is not caught: it ends the loop
  without the notice.
\<close>

fun run_loop ::
  "nat \<Rightarrow> 'e collaborators \<Rightarrow> (nat \<Rightarrow> heard) \<Rightarrow> (nat \<Rightarrow> playback) \<Rightarrow> nat \<Rightarrow> chatbot
     \<Rightarrow> event list \<Rightarrow> ((py_error + unit) \<times> chatbot \<times> event list) option" where
  "run_loop 0 c mic speaker k s sofar = None"
| "run_loop (Suc fuel) c mic speaker k s sofar =
     (if exit_flag s then Some (Inr (), s, sofar @ [closing_notice s])
      else
        (case speech_to_text (mic k) s of
           (s1, ev1) \<Rightarrow>
             (case handle_conversation c s1 of
                (Inl e, s2, ev2) \<Rightarrow> Some (Inl e, s2, sofar @ ev1 @ ev2)
              | (Inr response, s2, ev2) \<Rightarrow>
                  (case text_to_speech (speaker k) response s2 of
                     (Inl e, s3, ev3) \<Rightarrow> Some (Inl e, s3, sofar @ ev1 @ ev2 @ ev3)
                   | (Inr u, s3, ev3) \<Rightarrow>
                       run_loop fuel c mic speaker (Suc k) s3 (sofar @ ev1 @ ev2 @ ev3)))))"

text \<open>\<open>run\<close> (lines 307 to 312).\<close>

definition run ::
  "nat \<Rightarrow> 'e collaborators \<Rightarrow> (nat \<Rightarrow> heard) \<Rightarrow> (nat \<Rightarrow> playback) \<Rightarrow> chatbot
     \<Rightarrow> ((py_error + unit) \<times> chatbot \<times> event list) option" where
  "run fuel c mic speaker s = run_loop fuel c mic speaker 0 (s\<lparr>exit_flag := False\<rparr>) []"

subsection \<open>The constructor\<close>

text \<open>
  \<open>ChatBot.__init__\<close> (lines 39 to 55). The dict of lines 47 to 53 is built by calling
  each method at once and storing what it returns. \<open>self.get_weather()\<close> runs on the
  empty text, before \<open>self.weather\<close> exists; \<open>self.get_time()\<close> and \<open>self.thank_you()\<close>
  follow. \<open>self.sleep()\<close> on line 51 passes no \<open>text\<close> to a method that requires one:
  Python raises \<open>TypeError\<close> before the body of \<open>sleep\<close> runs, and the rest of the
  constructor (line 52 to line 55) is not reached.
\<close>

definition ChatBot_init :: "'e collaborators \<Rightarrow> nat \<Rightarrow> string \<Rightarrow> (py_error + chatbot) \<times> event list" where
  "ChatBot_init c r nm =
     (case ChatBot_get_weather c
             \<lparr>name = nm, text' = [], exit_flag = False, expected_inputs = [], weather = None\<rparr> of
        (Inl e, s1, ev1) \<Rightarrow> (Inl e, Print (''<<<< Starting up '' @ nm @ '' >>>>'') # ev1)
      | (Inr v1, s1, ev1) \<Rightarrow>
          (case get_time c s1 of
             (Inl e, s2, ev2) \<Rightarrow>
               (Inl e, Print (''<<<< Starting up '' @ nm @ '' >>>>'') # ev1 @ ev2)
           | (Inr v2, s2, ev2) \<Rightarrow>
               (case thank_you r s2 of
                  (Inl e, s3, ev3) \<Rightarrow>
                    (Inl e, Print (''<<<< Starting up '' @ nm @ '' >>>>'') # ev1 @ ev2 @ ev3)
                | (Inr v3, s3, ev3) \<Rightarrow>
                    (Inl TypeError,
                     Print (''<<<< Starting up '' @ nm @ '' >>>>'') # ev1 @ ev2 @ ev3))))"

section \<open>Concrete objects and collaborators\<close>

text \<open>
  A ChatBot as the constructor is written to leave it: the five phrases of lines 47 to
  53 in order, each with a string its method can return, and a weather adapter.
\<close>

definition jarvis :: chatbot where
  "jarvis =
     \<lparr>name = ''Jarvis'', text' = [], exit_flag = False,
      expected_inputs =
        [(''Current Weather in the city'',
          ''I say, old chap, one must specify a city to inquire about the weather.''),
         (''What is the time?'', ''12:00''),
         (''Thank you'', ''Anytime!''),
         (''Close Down'', ''Cheerio''),
         (''Wake Up {self.name}'',
          ''Hello I am Jarvis your AI assistant. Please ask for one thing at a time, I'm not all that smart. What can I do for you?'')],
      weather = Some (WeatherAdapter_init ''KEY'')\<rparr>"

text \<open>The payload of the spec's example, and a backend that serves it for Paris only.\<close>

definition light_rain :: json where
  "light_rain = JObj [(''weather'', JArr [JObj [(''description'', JStr ''light rain'')]])]"

definition paris_backend :: "string \<Rightarrow> http_outcome" where
  "paris_backend u =
     (if u = ''http://api.openweathermap.org/data/2.5/weather?q=Paris&appid=KEY''
      then Response 200 (Some light_rain) else Response 404 None)"

text \<open>
  Collaborators small enough to evaluate: a sentence is its own embedding, two
  embeddings score 1 when equal and 0 otherwise, and one sentence has entities.
\<close>

definition verbatim :: "string \<Rightarrow> string" where
  "verbatim t = t"

definition same_text :: "string \<Rightarrow> string \<Rightarrow> real" where
  "same_text u v = (if u = v then 1 else 0)"

definition known_places :: "string \<Rightarrow> entity list" where
  "known_places t =
     (if t = ''Will Alice see rain in Paris or in London?''
      then [\<lparr>ent_text = ''Alice'', label = ''PERSON''\<rparr>,
            \<lparr>ent_text = ''Paris'', label = ''GPE''\<rparr>,
            \<lparr>ent_text = ''London'', label = ''GPE''\<rparr>]
      else [])"

definition repr_unknown :: "json \<Rightarrow> string" where
  "repr_unknown v = ''?''"

definition studio :: "string collaborators" where
  "studio =
     \<lparr>similarity_model = verbatim, pytorch_cos_sim = same_text,
      city_identifier = known_places, backend = paris_backend, clock = ''12:00'',
      py_str = repr_unknown\<rparr>"

text \<open>A microphone or a speaker that does the same thing in every iteration.\<close>

definition every_time :: "'a \<Rightarrow> nat \<Rightarrow> 'a" where
  "every_time x k = x"

section \<open>Supporting lemmas\<close>

lemma first_gpe_none:
  "(first_gpe ents = None) = (\<forall>ent \<in> set ents. label ent \<noteq> ''GPE'')"
  by (induction ents) auto

lemma first_gpe_first:
  "\<forall>e \<in> set before. label e \<noteq> ''GPE'' \<Longrightarrow> label ent = ''GPE'' \<Longrightarrow>
   first_gpe (before @ ent # after) = Some (ent_text ent)"
  by (induction before) auto

lemma adapter_requests:
  "WeatherAdapter_get_weather g a city = (r, a', evs) \<Longrightarrow> requests_made evs = [api_url a city]"
  by (auto simp: WeatherAdapter_get_weather_def split: http_outcome.splits option.splits if_splits)

text \<open>
  The loop of lines 275 to 278 raises in its first iteration whenever it has a row to
  visit: the row itself is used as the index of line 276.
\<close>

lemma match_loop_rows:
  "embeddings \<noteq> [] \<Longrightarrow> rows \<noteq> [] \<Longrightarrow>
   match_loop c embeddings phrases (map TensorIdx rows) best = Inl IndexError"
  by (cases rows; cases best; cases embeddings)
     (simp_all add: tensor_getitem_def seq_getitem_def)

lemma handle_conversation_raises:
  "text' s \<noteq> ''ERROR'' \<Longrightarrow> expected_inputs s \<noteq> [] \<Longrightarrow>
   handle_conversation c s = (Inl IndexError, s, [Encode (expected_input_list s)])"
proof -
  assume t: "text' s \<noteq> ''ERROR''" and e: "expected_inputs s \<noteq> []"
  have "match_loop c (map (similarity_model c) (expected_input_list s))
          (expected_input_list s)
          (map TensorIdx (drop 1 (map (similarity_model c) (expected_input_list s))))
          (- 1, None) = Inl IndexError"
    by (rule match_loop_rows) (simp_all add: expected_input_list_def e)
  with t show ?thesis
    by (simp add: handle_conversation_def)
qed

text \<open>With no phrase in the dict the loop has nothing to visit, and line 283 raises.\<close>

lemma handle_conversation_empty_table:
  "text' s \<noteq> ''ERROR'' \<Longrightarrow> expected_inputs s = [] \<Longrightarrow>
   handle_conversation c s = (Inl AttributeError, s, [Encode [text' s]])"
  by (simp add: handle_conversation_def expected_input_list_def)

lemma handle_conversation_state: "state_after (handle_conversation c s) = s"
  by (simp add: handle_conversation_def state_after_def split: sum.split prod.split)

lemma ChatBot_get_weather_flag:
  "exit_flag (state_after (ChatBot_get_weather c s)) = exit_flag s"
  by (simp add: ChatBot_get_weather_def state_after_def split: option.split sum.split prod.split)

text \<open>Without the marker, lines 284 and 285 cut the first five characters of the reply.\<close>

lemma reply_without_marker:
  "find_str res ''bot >> '' = - 1 \<Longrightarrow> reply_of res = strip (drop 5 res)"
  by (simp add: reply_of_def)

text \<open>The constructor never returns an object.\<close>

lemma ChatBot_init_raises: "\<exists>e. fst (ChatBot_init c r nm) = Inl e"
  by (simp add: ChatBot_init_def get_time_def thank_you_def split: prod.split sum.split)

lemma ChatBot_init_sleep:
  "first_gpe (city_identifier c []) = None \<Longrightarrow> fst (ChatBot_init c r nm) = Inl TypeError"
  by (simp add: ChatBot_init_def ChatBot_get_weather_def get_time_def thank_you_def)

text \<open>
  However the loop of lines 308 to 312 ends: it returns only from a state whose flag
  is set, which is the state it was entered in, and an exception leaves the flag unset.
\<close>

lemma run_loop_outcome:
  "run_loop fuel c mic speaker k s sofar = Some (out, s', sofar') \<Longrightarrow>
   (case out of
      Inr u \<Rightarrow> exit_flag s' \<and> sofar' = sofar @ [closing_notice s'] \<and> s' = s
    | Inl e \<Rightarrow> \<not> exit_flag s')"
proof (induction fuel arbitrary: k s sofar)
  case 0
  then show ?case by simp
next
  case (Suc fuel)
  show ?case
  proof (cases "exit_flag s")
    case True
    with Suc.prems show ?thesis by auto
  next
    case False
    obtain s1 ev1 where stt: "speech_to_text (mic k) s = (s1, ev1)"
      by (cases "speech_to_text (mic k) s") auto
    have f1: "\<not> exit_flag s1"
      using stt False by (auto simp: speech_to_text_def split: heard.splits)
    obtain r2 s2 ev2 where hc: "handle_conversation c s1 = (r2, s2, ev2)"
      by (cases "handle_conversation c s1") auto
    have s2: "s2 = s1"
      using handle_conversation_state [of c s1] hc by (simp add: state_after_def)
    show ?thesis
    proof (cases r2)
      case (Inl e)
      with Suc.prems False stt hc f1 s2 show ?thesis by auto
    next
      case response: (Inr response)
      obtain r3 s3 ev3 where tts: "text_to_speech (speaker k) response s2 = (r3, s3, ev3)"
        by (cases "text_to_speech (speaker k) response s2") auto
      have s3: "s3 = s2"
        using tts by (auto simp: text_to_speech_def split: playback.splits)
      show ?thesis
      proof (cases r3)
        case (Inl e)
        with Suc.prems False stt hc response tts f1 s2 s3 show ?thesis by auto
      next
        case (Inr u)
        with Suc.prems False stt hc response tts
        have "run_loop fuel c mic speaker (Suc k) s3 (sofar @ ev1 @ ev2 @ ev3)
                = Some (out, s', sofar')"
          by simp
        from Suc.IH [OF this] f1 s2 s3 show ?thesis
          by (auto split: sum.splits)
      qed
    qed
  qed
qed

lemma run_loop_returns:
  assumes "run_loop fuel c mic speaker k s sofar = Some (Inr u, s', sofar')"
  shows "exit_flag s \<and> s' = s \<and> sofar' = sofar @ [closing_notice s]"
  using run_loop_outcome [OF assms] by auto

text \<open>
  \<open>run\<close> clears the flag and nothing in the loop sets it: \<open>run\<close> never returns, it runs
  on or ends by an exception.
\<close>

lemma run_never_shuts_down: "run fuel c mic speaker s \<noteq> Some (Inr u, s', sofar')"
proof
  assume "run fuel c mic speaker s = Some (Inr u, s', sofar')"
  then have "run_loop fuel c mic speaker 0 (s\<lparr>exit_flag := False\<rparr>) [] = Some (Inr u, s', sofar')"
    by (simp add: run_def)
  from run_loop_returns [OF this] show False
    by simp
qed

text \<open>
  Given the positions 1 to the number of phrases, the loop of lines 275 to 278 raises
  nothing and computes the running maximum of the spec; and that maximum comes with the
  first phrase that reaches it.
\<close>

lemma match_loop_positions_aux:
  "match_loop c (map (similarity_model c) (t # seen @ todo)) (t # seen @ todo)
     (positions (Suc (length seen)) (Suc (length seen + length todo))) best
   = Inr (spec_running_max (score_of c t) todo best)"
proof (induction todo arbitrary: seen best)
  case Nil
  then show ?case by (simp add: positions_def)
next
  case (Cons p ps)
  obtain m b where best: "best = (m, b)" by (cases best)
  define embeddings where "embeddings = map (similarity_model c) (t # seen @ p # ps)"
  define phrases where "phrases = t # seen @ p # ps"
  define i :: "'a index" where "i = IntIdx (int (Suc (length seen)))"
  define rest :: "'a index list"
    where "rest = positions (Suc (length (seen @ [p]))) (Suc (length (seen @ [p]) + length ps))"
  have pos: "positions (Suc (length seen)) (Suc (length seen + length (p # ps))) = i # rest"
    using upt_conv_Cons [of "Suc (length seen)" "Suc (length seen + length (p # ps))"]
    by (simp add: positions_def i_def rest_def)
  have row0: "tensor_getitem embeddings (IntIdx 0) = Inr (similarity_model c t)"
    by (simp add: tensor_getitem_def seq_getitem_def embeddings_def)
  have row: "tensor_getitem embeddings i = Inr (similarity_model c p)"
    by (simp add: tensor_getitem_def seq_getitem_def nth_append embeddings_def i_def
        del: of_nat_Suc)
  have phr: "list_getitem phrases i = Inr p"
    by (simp add: list_getitem_def seq_getitem_def nth_append phrases_def i_def
        del: of_nat_Suc)
  have ih: "match_loop c embeddings phrases rest best'
        = Inr (spec_running_max (score_of c t) ps best')" for best'
    using Cons.IH [of "seen @ [p]" best'] by (simp add: embeddings_def phrases_def rest_def)
  have "match_loop c embeddings phrases (i # rest) (m, b)
        = Inr (spec_running_max (score_of c t) (p # ps) (m, b))"
    by (simp add: row0 row phr ih score_of_def)
  then show ?case
    by (simp only: pos best embeddings_def phrases_def)
qed

lemma match_loop_positions:
  "match_loop c (map (similarity_model c) (t # phrases)) (t # phrases)
     (positions 1 (Suc (length phrases))) best
   = Inr (spec_running_max (score_of c t) phrases best)"
  using match_loop_positions_aux [of c t "[]" phrases best] by simp

lemma spec_running_max_first:
  "spec_running_max score ps (m, b) = (m', b') \<Longrightarrow>
   (m' = m \<and> b' = b \<and> (\<forall>p \<in> set ps. score p \<le> m)) \<or>
   (\<exists>pre p post. ps = pre @ p # post \<and> b' = Some p \<and> score p = m' \<and> m < m' \<and>
      (\<forall>q \<in> set pre. score q < m') \<and> (\<forall>q \<in> set post. score q \<le> m'))"
proof (induction ps arbitrary: m b)
  case Nil
  then show ?case by simp
next
  case (Cons p ps)
  show ?case
  proof (cases "score p > m")
    case True
    with Cons.prems have run: "spec_running_max score ps (score p, Some p) = (m', b')"
      by simp
    from Cons.IH [OF run] show ?thesis
    proof
      assume "m' = score p \<and> b' = Some p \<and> (\<forall>q \<in> set ps. score q \<le> score p)"
      then have "p # ps = [] @ p # ps \<and> b' = Some p \<and> score p = m' \<and> m < m' \<and>
          (\<forall>q \<in> set []. score q < m') \<and> (\<forall>q \<in> set ps. score q \<le> m')"
        using True by simp
      then show ?thesis by blast
    next
      assume "\<exists>pre q post. ps = pre @ q # post \<and> b' = Some q \<and> score q = m' \<and>
          score p < m' \<and> (\<forall>x \<in> set pre. score x < m') \<and> (\<forall>x \<in> set post. score x \<le> m')"
      then obtain pre q post where h: "ps = pre @ q # post" "b' = Some q" "score q = m'"
          "score p < m'" "\<forall>x \<in> set pre. score x < m'" "\<forall>x \<in> set post. score x \<le> m'"
        by blast
      then have "p # ps = (p # pre) @ q # post \<and> b' = Some q \<and> score q = m' \<and> m < m' \<and>
          (\<forall>x \<in> set (p # pre). score x < m') \<and> (\<forall>x \<in> set post. score x \<le> m')"
        using True by auto
      then show ?thesis by blast
    qed
  next
    case False
    with Cons.prems have run: "spec_running_max score ps (m, b) = (m', b')"
      by simp
    from Cons.IH [OF run] show ?thesis
    proof
      assume "m' = m \<and> b' = b \<and> (\<forall>q \<in> set ps. score q \<le> m)"
      then show ?thesis using False by auto
    next
      assume "\<exists>pre q post. ps = pre @ q # post \<and> b' = Some q \<and> score q = m' \<and>
          m < m' \<and> (\<forall>x \<in> set pre. score x < m') \<and> (\<forall>x \<in> set post. score x \<le> m')"
      then obtain pre q post where h: "ps = pre @ q # post" "b' = Some q" "score q = m'"
          "m < m'" "\<forall>x \<in> set pre. score x < m'" "\<forall>x \<in> set post. score x \<le> m'"
        by blast
      then have "p # ps = (p # pre) @ q # post \<and> b' = Some q \<and> score q = m' \<and> m < m' \<and>
          (\<forall>x \<in> set (p # pre). score x < m') \<and> (\<forall>x \<in> set post. score x \<le> m')"
        using False by auto
      then show ?thesis by blast
    qed
  qed
qed

section \<open>The weather adapter\<close>


text \<open>A place without such characters arrives as the claim says.\<close>

lemma plain_query:
  "map query_params (requests_made (effects
       (WeatherAdapter_get_weather paris_backend (WeatherAdapter_init ''KEY'') ''Paris'')))
     = [[(''q'', ''Paris''), (''appid'', ''KEY'')]]"
  by (simp add: WeatherAdapter_get_weather_def effects_def paris_backend_def
      WeatherAdapter_init_def api_url_def query_params_def query_string_def name_and_value_def)



text \<open>
  C6 fails on the code: the adapter catches nothing. When \<open>requests.get\<close> raises, when
  the payload of a 200 response lacks \<open>weather\<close>, when \<open>weather\<close> is an empty array,
  or when the body is not JSON, the exception leaves \<open>get_weather\<close>. It leaves
  \<open>ChatBot.get_weather\<close> too, whose apology for a result of \<open>None\<close> is not reached.
\<close>

theorem get_weather_failure_raises:
  "returned (WeatherAdapter_get_weather (replying NoResponse)
       (WeatherAdapter_init ''KEY'') ''Paris'')
     = Inl RequestException
   \<and> returned (WeatherAdapter_get_weather (replying (Response 200 (Some (JObj []))))
       (WeatherAdapter_init ''KEY'') ''Paris'')
     = Inl KeyError
   \<and> returned (WeatherAdapter_get_weather
       (replying (Response 200 (Some (JObj [(''weather'', JArr [])]))))
       (WeatherAdapter_init ''KEY'') ''Paris'')
     = Inl IndexError
   \<and> returned (WeatherAdapter_get_weather (replying (Response 200 None))
       (WeatherAdapter_init ''KEY'') ''Paris'')
     = Inl JSONDecodeError
   \<and> returned (ChatBot_get_weather (studio\<lparr>backend := replying NoResponse\<rparr>)
       (jarvis\<lparr>text' := ''Will Alice see rain in Paris or in London?''\<rparr>))
     = Inl RequestException"
  by (simp add: WeatherAdapter_get_weather_def returned_def replying_def description_of_def
      seq_getitem_def ChatBot_get_weather_def studio_def known_places_def jarvis_def)

text \<open>
  The one failure the adapter turns into \<open>None\<close>: a response whose status is not 200.
\<close>

lemma get_weather_non_200:
  "g (api_url a place) = Response status body \<Longrightarrow> status \<noteq> 200 \<Longrightarrow>
   returned (WeatherAdapter_get_weather g a place) = Inr JNull"
  by (simp add: WeatherAdapter_get_weather_def returned_def)

lemma get_weather_404:
  "returned (WeatherAdapter_get_weather (replying (Response 404 None))
      (WeatherAdapter_init ''KEY'') ''Paris'') = Inr JNull"
  using get_weather_non_200 [of "replying (Response 404 None)" "WeatherAdapter_init ''KEY''"
      "''Paris''" 404 None]
  by (simp add: replying_def)

text \<open>
  C8. Two calls with the same place, the second on the adapter as the first call left
  it, give the same result when the backend answers the request the same way both
  times.
\<close>

theorem get_weather_twice:
  assumes "g2 (api_url a place) = g1 (api_url a place)"
  shows "returned (WeatherAdapter_get_weather g2
            (state_after (WeatherAdapter_get_weather g1 a place)) place)
         = returned (WeatherAdapter_get_weather g1 a place)"
  using assms
  by (simp add: WeatherAdapter_get_weather_def state_after_def returned_def
      split: http_outcome.split option.split)

text \<open>
  Two backends that answer the request for Paris alike (and differ on every other URL).
\<close>

theorem get_weather_twice_witness:
  "replying (Response 200 (Some light_rain)) (api_url (WeatherAdapter_init ''KEY'') ''Paris'')
     = paris_backend (api_url (WeatherAdapter_init ''KEY'') ''Paris'')
   \<and> returned (WeatherAdapter_get_weather (replying (Response 200 (Some light_rain)))
       (state_after (WeatherAdapter_get_weather paris_backend (WeatherAdapter_init ''KEY'') ''Paris''))
       ''Paris'')
     = Inr (JStr ''light rain'')
   \<and> returned (WeatherAdapter_get_weather paris_backend (WeatherAdapter_init ''KEY'') ''Paris'')
     = Inr (JStr ''light rain'')"
  using get_weather_twice [of "replying (Response 200 (Some light_rain))"
      "WeatherAdapter_init ''KEY''" "''Paris''" paris_backend]
  by (simp add: WeatherAdapter_get_weather_def returned_def paris_backend_def replying_def
      WeatherAdapter_init_def api_url_def light_rain_def description_of_def seq_getitem_def)

text \<open>
  C9. Whatever the backend does, the adapter after \<open>get_weather\<close> has the \<open>api_key\<close> and
  the \<open>base_url\<close> it had before.
\<close>

theorem get_weather_frame:
  "api_key (state_after (WeatherAdapter_get_weather g a place)) = api_key a \<and>
   base_url (state_after (WeatherAdapter_get_weather g a place)) = base_url a"
  by (simp add: WeatherAdapter_get_weather_def state_after_def
      split: http_outcome.split option.split)

section \<open>Dispatch\<close>

text \<open>
  C3. When the captured text is the sentinel \<open>ERROR\<close>, \<open>handle_conversation\<close> returns
  the re-prompt at once: the object is unchanged and there is no effect at all, so the
  embedding model is not called and no phrase is compared.
\<close>

theorem sentinel_reprompt:
  "text' s = ''ERROR'' \<Longrightarrow>
   handle_conversation c s = (Inr ''Sorry, come again?'', s, [])"
  by (simp add: handle_conversation_def)

theorem sentinel_reprompt_witness:
  "text' (jarvis\<lparr>text' := ''ERROR''\<rparr>) = ''ERROR'' \<and>
   handle_conversation studio (jarvis\<lparr>text' := ''ERROR''\<rparr>)
     = (Inr ''Sorry, come again?'', jarvis\<lparr>text' := ''ERROR''\<rparr>, [])"
  using sentinel_reprompt [of "jarvis\<lparr>text' := ''ERROR''\<rparr>" studio]
  by simp

text \<open>
  C10. An utterance recognised as the text \<open>ERROR\<close> leaves the object exactly as each
  of the three failure handlers of \<open>speech_to_text\<close> leaves it, and dispatch answers it
  with the re-prompt, without calling the embedding model.
\<close>

theorem spoken_error_is_failure:
  "fst (speech_to_text (Recognized ''ERROR'') s) = fst (speech_to_text UnknownValueError s) \<and>
   fst (speech_to_text (Recognized ''ERROR'') s) = fst (speech_to_text (RequestError e) s) \<and>
   fst (speech_to_text (Recognized ''ERROR'') s) = fst (speech_to_text (Crashed l e') s) \<and>
   returned (handle_conversation c (fst (speech_to_text (Recognized ''ERROR'') s)))
     = Inr ''Sorry, come again?'' \<and>
   effects (handle_conversation c (fst (speech_to_text (Recognized ''ERROR'') s))) = []"
  by (simp add: speech_to_text_def handle_conversation_def returned_def effects_def)

text \<open>
  C1 fails on the code. With the five phrases of the constructor and the captured text
  \<open>Close Down\<close>, whatever the embedding model and the scores are, \<open>handle_conversation\<close>
  makes its one call of the embedding model and then raises \<open>IndexError\<close> in the first
  iteration of its loop; the termination flag stays unset. No action is invoked and
  nothing is returned.
\<close>

theorem close_down_dispatch_raises:
  "returned (handle_conversation c (jarvis\<lparr>text' := ''Close Down''\<rparr>)) = Inl IndexError \<and>
   exit_flag (state_after (handle_conversation c (jarvis\<lparr>text' := ''Close Down''\<rparr>))) = False \<and>
   effects (handle_conversation c (jarvis\<lparr>text' := ''Close Down''\<rparr>))
     = [Encode [''Close Down'', ''Current Weather in the city'', ''What is the time?'',
                ''Thank you'', ''Close Down'', ''Wake Up {self.name}'']]"
proof -
  have "handle_conversation c (jarvis\<lparr>text' := ''Close Down''\<rparr>)
          = (Inl IndexError, jarvis\<lparr>text' := ''Close Down''\<rparr>,
             [Encode (expected_input_list (jarvis\<lparr>text' := ''Close Down''\<rparr>))])"
    by (rule handle_conversation_raises) (simp_all add: jarvis_def)
  then show ?thesis
    by (simp add: returned_def state_after_def effects_def expected_input_list_def jarvis_def)
qed

text \<open>
  C2 fails on the code. With the five phrases of the constructor and a text that is no
  intent, \<open>handle_conversation\<close> raises \<open>IndexError\<close> in its loop and never reaches the
  dialogue engine. With no phrase at all the loop is skipped and the fallback is
  reached: it raises \<open>AttributeError\<close>, since it reads an attribute that does not exist.
\<close>

theorem small_talk_dispatch_raises:
  "returned (handle_conversation c (jarvis\<lparr>text' := ''How are you today?''\<rparr>))
     = Inl IndexError \<and>
   returned (handle_conversation c
       (jarvis\<lparr>text' := ''How are you today?'', expected_inputs := []\<rparr>))
     = Inl AttributeError"
proof -
  have "handle_conversation c (jarvis\<lparr>text' := ''How are you today?''\<rparr>)
          = (Inl IndexError, jarvis\<lparr>text' := ''How are you today?''\<rparr>,
             [Encode (expected_input_list (jarvis\<lparr>text' := ''How are you today?''\<rparr>))])"
    by (rule handle_conversation_raises) (simp_all add: jarvis_def)
  moreover have "handle_conversation c
       (jarvis\<lparr>text' := ''How are you today?'', expected_inputs := []\<rparr>)
          = (Inl AttributeError, jarvis\<lparr>text' := ''How are you today?'', expected_inputs := []\<rparr>,
             [Encode [text' (jarvis\<lparr>text' := ''How are you today?'', expected_inputs := []\<rparr>)]])"
    by (rule handle_conversation_empty_table) simp_all
  ultimately show ?thesis
    by (simp add: returned_def)
qed

section \<open>The weather intent\<close>

text \<open>
  C7. When no entity of the captured text is labelled GPE, \<open>ChatBot.get_weather\<close>
  returns the fixed message that asks for a city and makes no request. When the
  entities are \<open>before\<close>, \<open>ent\<close>, \<open>after\<close> with \<open>ent\<close> the first one labelled GPE (its text
  not empty), the one request made is for the text of \<open>ent\<close>, and the answer is built
  from what the adapter returns for it.
\<close>

theorem weather_needs_a_city:
  "((\<forall>ent \<in> set (city_identifier c (text' s)). label ent \<noteq> ''GPE'') \<longrightarrow>
      returned (ChatBot_get_weather c s)
        = Inr ''I say, old chap, one must specify a city to inquire about the weather.'' \<and>
      requests_made (effects (ChatBot_get_weather c s)) = [])
   \<and> (city_identifier c (text' s) = before @ ent # after \<and>
       (\<forall>e \<in> set before. label e \<noteq> ''GPE'') \<and> label ent = ''GPE'' \<and>
       ent_text ent \<noteq> [] \<and> weather s = Some a \<longrightarrow>
      requests_made (effects (ChatBot_get_weather c s)) = [api_url a (ent_text ent)] \<and>
      returned (ChatBot_get_weather c s)
        = (case returned (WeatherAdapter_get_weather (backend c) a (ent_text ent)) of
             Inl e \<Rightarrow> Inl e
           | Inr w \<Rightarrow> if w = JNull then Inr no_weather
                      else Inr (weather_report c (ent_text ent) w)))"
proof (intro conjI impI)
  assume "\<forall>ent \<in> set (city_identifier c (text' s)). label ent \<noteq> ''GPE''"
  then have none: "first_gpe (city_identifier c (text' s)) = None"
    by (simp add: first_gpe_none)
  show "returned (ChatBot_get_weather c s)
        = Inr ''I say, old chap, one must specify a city to inquire about the weather.''"
    by (simp add: ChatBot_get_weather_def none returned_def specify_a_city_def)
  show "requests_made (effects (ChatBot_get_weather c s)) = []"
    by (simp add: ChatBot_get_weather_def none effects_def)
next
  assume h: "city_identifier c (text' s) = before @ ent # after \<and>
       (\<forall>e \<in> set before. label e \<noteq> ''GPE'') \<and> label ent = ''GPE'' \<and>
       ent_text ent \<noteq> [] \<and> weather s = Some a"
  then have city: "first_gpe (city_identifier c (text' s)) = Some (ent_text ent)"
    by (simp add: first_gpe_first)
  obtain r a' evs where call:
    "WeatherAdapter_get_weather (backend c) a (ent_text ent) = (r, a', evs)"
    by (cases "WeatherAdapter_get_weather (backend c) a (ent_text ent)") auto
  have reqs: "requests_made evs = [api_url a (ent_text ent)]"
    using call by (rule adapter_requests)
  show "requests_made (effects (ChatBot_get_weather c s)) = [api_url a (ent_text ent)]"
    using h city call reqs
    by (simp add: ChatBot_get_weather_def effects_def split: sum.split)
  show "returned (ChatBot_get_weather c s)
        = (case returned (WeatherAdapter_get_weather (backend c) a (ent_text ent)) of
             Inl e \<Rightarrow> Inl e
           | Inr w \<Rightarrow> if w = JNull then Inr no_weather
                      else Inr (weather_report c (ent_text ent) w))"
    using h city call
    by (simp add: ChatBot_get_weather_def returned_def split: sum.split)
qed

text \<open>
  A question that names no place, and one whose entities are a person, Paris and
  London: Paris is the place asked for.
\<close>

theorem weather_needs_a_city_witness:
  "returned (ChatBot_get_weather studio (jarvis\<lparr>text' := ''What is the weather like?''\<rparr>))
     = Inr ''I say, old chap, one must specify a city to inquire about the weather.''
   \<and> requests_made
       (effects (ChatBot_get_weather studio (jarvis\<lparr>text' := ''What is the weather like?''\<rparr>)))
     = []
   \<and> requests_made
       (effects (ChatBot_get_weather studio
          (jarvis\<lparr>text' := ''Will Alice see rain in Paris or in London?''\<rparr>)))
     = [''http://api.openweathermap.org/data/2.5/weather?q=Paris&appid=KEY'']
   \<and> returned (ChatBot_get_weather studio
          (jarvis\<lparr>text' := ''Will Alice see rain in Paris or in London?''\<rparr>))
     = Inr ''Ah, in Paris, one observes the weather to be light rain. Quite intriguing, wouldn't you agree?''"
  using
    weather_needs_a_city [of studio "jarvis\<lparr>text' := ''What is the weather like?''\<rparr>"]
    weather_needs_a_city [of studio
      "jarvis\<lparr>text' := ''Will Alice see rain in Paris or in London?''\<rparr>"
      "[\<lparr>ent_text = ''Alice'', label = ''PERSON''\<rparr>]"
      "\<lparr>ent_text = ''Paris'', label = ''GPE''\<rparr>"
      "[\<lparr>ent_text = ''London'', label = ''GPE''\<rparr>]"
      "WeatherAdapter_init ''KEY''"]
  by (simp add: studio_def known_places_def jarvis_def WeatherAdapter_init_def api_url_def
      WeatherAdapter_get_weather_def returned_def paris_backend_def light_rain_def
      description_of_def seq_getitem_def weather_report_def)

section \<open>The termination flag\<close>

text \<open>
  \<open>sleep\<close>, called with a text, sets the termination flag; no other method, and neither
  dispatch, listening nor speaking, changes it.
\<close>

lemma flag_only_set_by_sleep:
  "exit_flag (state_after (sleep r utterance s)) \<and>
   exit_flag (state_after (wake_up utterance s)) = exit_flag s \<and>
   exit_flag (state_after (thank_you r s)) = exit_flag s \<and>
   exit_flag (state_after (get_time c s)) = exit_flag s \<and>
   exit_flag (state_after (ChatBot_get_weather c s)) = exit_flag s \<and>
   exit_flag (state_after (handle_conversation c s)) = exit_flag s \<and>
   exit_flag (fst (speech_to_text h s)) = exit_flag s \<and>
   exit_flag (state_after (text_to_speech p t s)) = exit_flag s"
  by (simp add: sleep_def wake_up_def thank_you_def get_time_def state_after_def
      ChatBot_get_weather_flag [unfolded state_after_def]
      handle_conversation_state [unfolded state_after_def]
      speech_to_text_def text_to_speech_def split: heard.split playback.split)

text \<open>
  C4 fails on the code. \<open>run\<close> clears the flag and its loop never reaches \<open>sleep\<close>: when
  the user says \<open>Close Down\<close>, whatever the collaborators do, \<open>run\<close> ends by the
  \<open>IndexError\<close> of dispatch, the flag unset and no closing notice printed. For no
  object, collaborators, microphone or speaker does \<open>run\<close> return. And the constructor,
  the one other place that calls \<open>sleep\<close>, passes it no text and raises, so it gives no
  object at all.
\<close>

theorem close_down_never_shuts_down:
  "run (Suc fuel) c (every_time (Recognized ''Close Down'')) speaker jarvis
     = Some (Inl IndexError, jarvis\<lparr>text' := ''Close Down''\<rparr>,
         [Print ''Listening...'', Listen, Print ''Me  >>>  Close Down'',
          Encode [''Close Down'', ''Current Weather in the city'', ''What is the time?'',
                  ''Thank you'', ''Close Down'', ''Wake Up {self.name}'']]) \<and>
   run fuel' c' mic speaker' s \<noteq> Some (Inr u, s', sofar') \<and>
   fst (ChatBot_init c r ''Jarvis'') \<noteq> Inr s''"
proof (intro conjI)
  have "handle_conversation c (jarvis\<lparr>text' := ''Close Down''\<rparr>)
          = (Inl IndexError, jarvis\<lparr>text' := ''Close Down''\<rparr>,
             [Encode (expected_input_list (jarvis\<lparr>text' := ''Close Down''\<rparr>))])"
    by (rule handle_conversation_raises) (simp_all add: jarvis_def)
  then show "run (Suc fuel) c (every_time (Recognized ''Close Down'')) speaker jarvis
     = Some (Inl IndexError, jarvis\<lparr>text' := ''Close Down''\<rparr>,
         [Print ''Listening...'', Listen, Print ''Me  >>>  Close Down'',
          Encode [''Close Down'', ''Current Weather in the city'', ''What is the time?'',
                  ''Thank you'', ''Close Down'', ''Wake Up {self.name}'']])"
    by (simp add: run_def every_time_def speech_to_text_def expected_input_list_def jarvis_def)
  show "run fuel' c' mic speaker' s \<noteq> Some (Inr u, s', sofar')"
    by (rule run_never_shuts_down)
  show "fst (ChatBot_init c r ''Jarvis'') \<noteq> Inr s''"
    using ChatBot_init_raises [of c r "''Jarvis''"] by auto
qed

end
